theory Spec2Isabelle
  imports Complex_Main
begin

section \<open>Values and exceptions of the script\<close>

text \<open>
  \<^verbatim>\<open>ecef_to_sez.py\<close> computes with Python floats. A float is modelled as an exact real
  number or the value NaN; every exception the script can raise is a value of
  \<open>py_error\<close>, and an operation that can raise returns \<open>py_error + 'a\<close>.
  Of the range of a double the model has what \<^verbatim>\<open>x**2\<close> does with it: OverflowError when
  the square is too large, zero when it is too small. Rounding, the infinities and the
  sign of zero are not part of the model.
\<close>

datatype pyfloat = Fin real | NaN

datatype py_error = ZeroDivisionError | IndexError | OverflowError | ValueError string

fun bindE :: "py_error + 'a \<Rightarrow> ('a \<Rightarrow> py_error + 'b) \<Rightarrow> py_error + 'b" where
  "bindE (Inl e) f = Inl e"
| "bindE (Inr v) f = f v"

fun mapE :: "('a \<Rightarrow> py_error + 'b) \<Rightarrow> 'a list \<Rightarrow> py_error + 'b list" where
  "mapE f [] = Inr []"
| "mapE f (x # xs) = bindE (f x) (\<lambda>y. bindE (mapE f xs) (\<lambda>ys. Inr (y # ys)))"

definition math_domain_error :: py_error where
  "math_domain_error = ValueError ''math domain error''"

definition matrix_dimension_error :: py_error where
  "matrix_dimension_error = ValueError
     ''Matrix multiplication is not possible. Columns of matrix1 must equal rows of matrix2.''"

subsection \<open>Float arithmetic\<close>

fun py_add :: "pyfloat \<Rightarrow> pyfloat \<Rightarrow> pyfloat" where
  "py_add (Fin a) (Fin b) = Fin (a + b)"
| "py_add _ _ = NaN"

fun py_sub :: "pyfloat \<Rightarrow> pyfloat \<Rightarrow> pyfloat" where
  "py_sub (Fin a) (Fin b) = Fin (a - b)"
| "py_sub _ _ = NaN"

fun py_mul :: "pyfloat \<Rightarrow> pyfloat \<Rightarrow> pyfloat" where
  "py_mul (Fin a) (Fin b) = Fin (a * b)"
| "py_mul _ _ = NaN"

fun py_neg :: "pyfloat \<Rightarrow> pyfloat" where
  "py_neg (Fin a) = Fin (- a)"
| "py_neg NaN = NaN"

text \<open>\<^verbatim>\<open>a / b\<close> raises as soon as the divisor is zero, whatever the dividend is.\<close>

fun py_div :: "pyfloat \<Rightarrow> pyfloat \<Rightarrow> py_error + pyfloat" where
  "py_div a (Fin b) =
     (if b = 0 then Inl ZeroDivisionError
      else (case a of Fin x \<Rightarrow> Inr (Fin (x / b)) | NaN \<Rightarrow> Inr NaN))"
| "py_div a NaN = Inr NaN"

text \<open>
  \<^verbatim>\<open>x**2\<close>: a square that rounds beyond the largest double raises OverflowError, and
  one that rounds to zero is zero.
\<close>

definition dbl_overflow :: real where
  "dbl_overflow = 2 ^ 1024 - 2 ^ 970"

definition dbl_underflow :: real where
  "dbl_underflow = 1 / 2 ^ 1075"

fun py_sq :: "pyfloat \<Rightarrow> py_error + pyfloat" where
  "py_sq (Fin a) =
     (if dbl_overflow \<le> a\<^sup>2 then Inl OverflowError
      else if a\<^sup>2 \<le> dbl_underflow then Inr (Fin 0)
      else Inr (Fin (a\<^sup>2)))"
| "py_sq NaN = Inr NaN"

fun py_abs :: "pyfloat \<Rightarrow> pyfloat" where
  "py_abs (Fin a) = Fin \<bar>a\<bar>"
| "py_abs NaN = NaN"

text \<open>A comparison with NaN is false.\<close>

fun py_gt :: "pyfloat \<Rightarrow> pyfloat \<Rightarrow> bool" where
  "py_gt (Fin a) (Fin b) = (a > b)"
| "py_gt _ _ = False"

subsection \<open>The functions of the math module that the script calls\<close>

fun math_isnan :: "pyfloat \<Rightarrow> bool" where
  "math_isnan NaN = True"
| "math_isnan (Fin a) = False"

fun math_sqrt :: "pyfloat \<Rightarrow> py_error + pyfloat" where
  "math_sqrt (Fin a) = (if a < 0 then Inl math_domain_error else Inr (Fin (sqrt a)))"
| "math_sqrt NaN = Inr NaN"

fun math_sin :: "pyfloat \<Rightarrow> pyfloat" where
  "math_sin (Fin a) = Fin (sin a)"
| "math_sin NaN = NaN"

fun math_cos :: "pyfloat \<Rightarrow> pyfloat" where
  "math_cos (Fin a) = Fin (cos a)"
| "math_cos NaN = NaN"

fun math_asin :: "pyfloat \<Rightarrow> py_error + pyfloat" where
  "math_asin (Fin a) =
     (if a < - 1 \<or> 1 < a then Inl math_domain_error else Inr (Fin (arcsin a)))"
| "math_asin NaN = Inr NaN"

fun math_atan :: "pyfloat \<Rightarrow> pyfloat" where
  "math_atan (Fin a) = Fin (arctan a)"
| "math_atan NaN = NaN"

text \<open>The angle of the point \<open>(x, y)\<close>, in \<open>(-\<pi>, \<pi>]\<close>; \<^verbatim>\<open>atan2(0, 0)\<close> is 0.\<close>

definition atan2 :: "real \<Rightarrow> real \<Rightarrow> real" where
  "atan2 y x =
     (if 0 < x then arctan (y / x)
      else if x < 0 then (if 0 \<le> y then arctan (y / x) + pi else arctan (y / x) - pi)
      else if 0 < y then pi / 2
      else if y < 0 then - (pi / 2)
      else 0)"

fun math_atan2 :: "pyfloat \<Rightarrow> pyfloat \<Rightarrow> pyfloat" where
  "math_atan2 (Fin y) (Fin x) = Fin (atan2 y x)"
| "math_atan2 _ _ = NaN"

subsection \<open>Lists\<close>

text \<open>\<^verbatim>\<open>xs[i]\<close> for an index \<open>i \<ge> 0\<close>: IndexError beyond the end of the list.\<close>

definition py_index :: "'a list \<Rightarrow> nat \<Rightarrow> py_error + 'a" where
  "py_index xs i = (if i < length xs then Inr (xs ! i) else Inl IndexError)"

section \<open>The script\<close>

subsection \<open>Constants\<close>

definition R_E_KM :: pyfloat where
  "R_E_KM = Fin 6378.137"

definition E_E :: pyfloat where
  "E_E = Fin 0.081819221456"

subsection \<open>Helper functions\<close>

definition calc_denom :: "pyfloat \<Rightarrow> pyfloat \<Rightarrow> py_error + pyfloat" where
  "calc_denom ecc lat_rad =
     bindE (py_sq ecc) (\<lambda>ecc2.
     bindE (py_sq (math_sin lat_rad)) (\<lambda>sin2.
       math_sqrt (py_sub (Fin 1.0) (py_mul ecc2 sin2))))"

type_synonym matrix = "pyfloat list list"

text \<open>
  The innermost loop of \<^verbatim>\<open>matrix_multiply\<close>, over \<open>k\<close>: \<open>acc\<close> is \<^verbatim>\<open>result[i][j]\<close>.
  The source reads \<^verbatim>\<open>matrix1[i][k]\<close> before \<^verbatim>\<open>matrix2[k][j]\<close>.
\<close>

fun mm_k :: "matrix \<Rightarrow> matrix \<Rightarrow> nat \<Rightarrow> nat \<Rightarrow> nat list \<Rightarrow> pyfloat \<Rightarrow> py_error + pyfloat" where
  "mm_k matrix1 matrix2 i j [] acc = Inr acc"
| "mm_k matrix1 matrix2 i j (k # ks) acc =
     bindE (py_index matrix1 i) (\<lambda>row1.
     bindE (py_index row1 k) (\<lambda>a.
     bindE (py_index matrix2 k) (\<lambda>row2.
     bindE (py_index row2 j) (\<lambda>b.
       mm_k matrix1 matrix2 i j ks (py_add acc (py_mul a b))))))"

definition matrix_multiply :: "matrix \<Rightarrow> matrix \<Rightarrow> py_error + matrix" where
  "matrix_multiply matrix1 matrix2 =
     (let rows_matrix1 = length matrix1 in
      bindE (py_index matrix1 0) (\<lambda>first1.
      let cols_matrix1 = length first1;
          rows_matrix2 = length matrix2 in
      bindE (py_index matrix2 0) (\<lambda>first2.
      let cols_matrix2 = length first2 in
      if cols_matrix1 \<noteq> rows_matrix2 then Inl matrix_dimension_error
      else mapE (\<lambda>i. mapE (\<lambda>j. mm_k matrix1 matrix2 i j [0..<cols_matrix1] (Fin 0))
                         [0..<cols_matrix2])
                [0..<rows_matrix1])))"

subsection \<open>Latitude and longitude of the origin\<close>

record lat_state =
  o_lat_rad :: pyfloat
  prev_lat_rad :: pyfloat
  c_E :: pyfloat
  count :: nat

text \<open>The test of the \<^verbatim>\<open>while\<close> loop; \<^verbatim>\<open>10e-7\<close> is \<open>10 \<cdot> 10\<^sup>-\<^sup>7\<close>.\<close>

definition loop_cond :: "lat_state \<Rightarrow> bool" where
  "loop_cond s \<longleftrightarrow>
     (math_isnan (prev_lat_rad s)
        \<or> py_gt (py_abs (py_sub (o_lat_rad s) (prev_lat_rad s))) (Fin (10 / 10 ^ 7)))
     \<and> count s < 5"

text \<open>One run of the loop body.\<close>

definition loop_body :: "pyfloat \<Rightarrow> pyfloat \<Rightarrow> lat_state \<Rightarrow> py_error + lat_state" where
  "loop_body o_z_km r_lon_km s =
     bindE (calc_denom E_E (o_lat_rad s)) (\<lambda>denom.
     bindE (py_div R_E_KM denom) (\<lambda>c.
     bindE (py_sq E_E) (\<lambda>ecc2.
     bindE (py_div (py_add o_z_km (py_mul (py_mul c ecc2) (math_sin (o_lat_rad s))))
                   r_lon_km) (\<lambda>q.
       Inr \<lparr>o_lat_rad = math_atan q, prev_lat_rad = o_lat_rad s, c_E = c,
            count = count s + 1\<rparr>))))"

function lat_loop :: "pyfloat \<Rightarrow> pyfloat \<Rightarrow> lat_state \<Rightarrow> py_error + lat_state" where
  "lat_loop o_z_km r_lon_km s =
     (if loop_cond s
      then (case loop_body o_z_km r_lon_km s of
              Inl e \<Rightarrow> Inl e
            | Inr s' \<Rightarrow> lat_loop o_z_km r_lon_km s')
      else Inr s)"
  by pat_completeness auto

lemma bindE_Inr: "bindE m f = Inr y \<longleftrightarrow> (\<exists>x. m = Inr x \<and> f x = Inr y)"
  by (cases m) auto

lemma loop_body_count:
  "loop_body o_z_km r_lon_km s = Inr s' \<Longrightarrow> count s' = count s + 1"
  by (auto simp: loop_body_def bindE_Inr)

termination lat_loop
proof (relation "measure (\<lambda>(o_z_km, r_lon_km, s). 5 - count s)")
  show "wf (measure (\<lambda>(o_z_km, r_lon_km, s). 5 - count s))"
    by simp
next
  fix o_z_km r_lon_km :: pyfloat and s s' :: lat_state
  assume "loop_cond s" and "loop_body o_z_km r_lon_km s = Inr s'"
  then have "count s < 5" and "count s' = count s + 1"
    by (simp_all add: loop_cond_def loop_body_count)
  then show "((o_z_km, r_lon_km, s'), (o_z_km, r_lon_km, s))
      \<in> measure (\<lambda>(o_z_km, r_lon_km, s). 5 - count s)"
    by simp
qed

declare lat_loop.simps [simp del]

text \<open>
  The first estimate of the latitude and the distance \<^verbatim>\<open>r_lon_km\<close> from the polar axis,
  as the script computes them before the loop.
\<close>

definition lat_init :: "pyfloat \<Rightarrow> pyfloat \<Rightarrow> pyfloat \<Rightarrow> py_error + (pyfloat \<times> pyfloat)" where
  "lat_init o_x_km o_y_km o_z_km =
     bindE (py_sq o_x_km) (\<lambda>x2. bindE (py_sq o_y_km) (\<lambda>y2. bindE (py_sq o_z_km) (\<lambda>z2.
     bindE (math_sqrt (py_add (py_add x2 y2) z2)) (\<lambda>norm.
     bindE (py_div o_z_km norm) (\<lambda>ratio.
     bindE (math_asin ratio) (\<lambda>lat0.
     bindE (py_sq o_x_km) (\<lambda>x2. bindE (py_sq o_y_km) (\<lambda>y2.
     bindE (math_sqrt (py_add x2 y2)) (\<lambda>r_lon_km.
       Inr (lat0, r_lon_km))))))))))"

text \<open>The variables of the loop when it is entered.\<close>

definition lat_start :: "pyfloat \<Rightarrow> lat_state" where
  "lat_start lat0 = \<lparr>o_lat_rad = lat0, prev_lat_rad = NaN, c_E = NaN, count = 0\<rparr>"

text \<open>
  The first part of the script: the longitude, the first estimate of the latitude, and
  the loop. The result is the state of the loop at its end, and the longitude.
\<close>

definition geodetic_solve :: "pyfloat \<Rightarrow> pyfloat \<Rightarrow> pyfloat \<Rightarrow> py_error + (lat_state \<times> pyfloat)" where
  "geodetic_solve o_x_km o_y_km o_z_km =
     (let o_lon_rad = math_atan2 o_y_km o_x_km in
      bindE (lat_init o_x_km o_y_km o_z_km) (\<lambda>(lat0, r_lon_km).
      bindE (lat_loop o_z_km r_lon_km (lat_start lat0)) (\<lambda>s.
        Inr (s, o_lon_rad))))"

subsection \<open>The SEZ vector\<close>

definition r_rel_ecef :: "pyfloat \<Rightarrow> pyfloat \<Rightarrow> pyfloat \<Rightarrow> pyfloat \<Rightarrow> pyfloat \<Rightarrow> pyfloat \<Rightarrow> matrix" where
  "r_rel_ecef o_x_km o_y_km o_z_km x_km y_km z_km =
     [[py_sub x_km o_x_km], [py_sub y_km o_y_km], [py_sub z_km o_z_km]]"

definition Ryinv :: "pyfloat \<Rightarrow> matrix" where
  "Ryinv lat =
     [[math_sin lat, Fin 0, py_neg (math_cos lat)],
      [Fin 0, Fin 1, Fin 0],
      [math_cos lat, Fin 0, math_sin lat]]"

definition Rzinv :: "pyfloat \<Rightarrow> matrix" where
  "Rzinv lon =
     [[math_cos lon, math_sin lon, Fin 0],
      [py_neg (math_sin lon), math_cos lon, Fin 0],
      [Fin 0, Fin 0, Fin 1]]"

definition r_sez :: "pyfloat \<Rightarrow> pyfloat \<Rightarrow> matrix \<Rightarrow> py_error + matrix" where
  "r_sez lat lon r_rel =
     bindE (matrix_multiply (Rzinv lon) r_rel) (\<lambda>v. matrix_multiply (Ryinv lat) v)"

text \<open>The three printed numbers: \<^verbatim>\<open>r_sez[0][0]\<close>, \<^verbatim>\<open>r_sez[1][0]\<close>, \<^verbatim>\<open>r_sez[2][0]\<close>.\<close>

definition printed :: "matrix \<Rightarrow> py_error + (pyfloat \<times> pyfloat \<times> pyfloat)" where
  "printed m =
     bindE (py_index m 0) (\<lambda>row0. bindE (py_index row0 0) (\<lambda>s.
     bindE (py_index m 1) (\<lambda>row1. bindE (py_index row1 0) (\<lambda>e.
     bindE (py_index m 2) (\<lambda>row2. bindE (py_index row2 0) (\<lambda>z.
       Inr (s, e, z)))))))"

text \<open>The whole script, from its six parsed arguments to the three printed numbers.\<close>

definition ecef_to_sez ::
  "pyfloat \<Rightarrow> pyfloat \<Rightarrow> pyfloat \<Rightarrow> pyfloat \<Rightarrow> pyfloat \<Rightarrow> pyfloat
     \<Rightarrow> py_error + (pyfloat \<times> pyfloat \<times> pyfloat)" where
  "ecef_to_sez o_x_km o_y_km o_z_km x_km y_km z_km =
     bindE (geodetic_solve o_x_km o_y_km o_z_km) (\<lambda>(s, o_lon_rad).
     bindE (r_sez (o_lat_rad s) o_lon_rad (r_rel_ecef o_x_km o_y_km o_z_km x_km y_km z_km))
       printed)"

section \<open>Notions used to state the properties\<close>

text \<open>A matrix of \<open>m\<close> rows that all have \<open>n\<close> entries.\<close>

definition is_matrix :: "nat \<Rightarrow> nat \<Rightarrow> matrix \<Rightarrow> bool" where
  "is_matrix m n A \<longleftrightarrow> length A = m \<and> list_all (\<lambda>row. length row = n) A"

text \<open>The state after \<open>n\<close> runs of the loop body, or the exception one of them raised.\<close>

fun body_iter :: "nat \<Rightarrow> pyfloat \<Rightarrow> pyfloat \<Rightarrow> lat_state \<Rightarrow> py_error + lat_state" where
  "body_iter 0 o_z_km r_lon_km s = Inr s"
| "body_iter (Suc n) o_z_km r_lon_km s =
     bindE (loop_body o_z_km r_lon_km s) (body_iter n o_z_km r_lon_km)"

text \<open>
  The two rotations as the specification writes them, over the real numbers, and the
  product of a matrix and a vector.
\<close>

definition spec_Ryinv :: "real \<Rightarrow> real list list" where
  "spec_Ryinv lat = [[sin lat, 0, - cos lat], [0, 1, 0], [cos lat, 0, sin lat]]"

definition spec_Rzinv :: "real \<Rightarrow> real list list" where
  "spec_Rzinv lon = [[cos lon, sin lon, 0], [- sin lon, cos lon, 0], [0, 0, 1]]"

definition spec_apply :: "real list list \<Rightarrow> real list \<Rightarrow> real list" where
  "spec_apply M v = map (\<lambda>row. sum_list (map2 (*) row v)) M"

text \<open>A vector of real numbers as the script holds it: a list of rows of one entry.\<close>

definition column :: "real list \<Rightarrow> matrix" where
  "column v = map (\<lambda>c. [Fin c]) v"

text \<open>
  The coordinates on which no square of the script overflows or underflows: zero, and
  the numbers of magnitude between \<open>10\<^sup>-\<^sup>1\<^sup>5\<^sup>0\<close> and \<open>10\<^sup>1\<^sup>5\<^sup>0\<close>. The zero of the model is
  the float \<^verbatim>\<open>0.0\<close>.
\<close>

definition in_range :: "real \<Rightarrow> bool" where
  "in_range a \<longleftrightarrow> a = 0 \<or> (1 / 10 ^ 150 \<le> \<bar>a\<bar> \<and> \<bar>a\<bar> \<le> 10 ^ 150)"

text \<open>A coordinate that is NaN or in that range.\<close>

fun ok_coord :: "pyfloat \<Rightarrow> bool" where
  "ok_coord (Fin a) = in_range a"
| "ok_coord NaN = True"

section \<open>Squares\<close>

lemma py_sq_zero [simp]: "py_sq (Fin 0) = Inr (Fin 0)"
  by (simp add: dbl_overflow_def dbl_underflow_def)

declare py_sq.simps(1) [simp del]

lemma py_sq_bounded:
  "a\<^sup>2 < dbl_overflow \<Longrightarrow> \<exists>t. py_sq (Fin a) = Inr (Fin t) \<and> 0 \<le> t \<and> t \<le> a\<^sup>2"
  by (simp add: py_sq.simps(1))

lemma dbl_overflow_gt_1: "1 < dbl_overflow"
  by (simp add: dbl_overflow_def)

lemma py_sq_le_1:
  assumes "\<bar>a\<bar> \<le> 1"
  shows "\<exists>t. py_sq (Fin a) = Inr (Fin t) \<and> 0 \<le> t \<and> t \<le> a\<^sup>2 \<and> a\<^sup>2 \<le> 1"
proof -
  from assms have a: "a\<^sup>2 \<le> 1" by (simp add: abs_square_le_1)
  with dbl_overflow_gt_1 have "a\<^sup>2 < dbl_overflow" by linarith
  from py_sq_bounded [OF this] a show ?thesis by auto
qed

lemma py_sq_in_range:
  assumes "1 / 10 ^ 150 \<le> \<bar>a\<bar>" and "\<bar>a\<bar> \<le> 10 ^ 150"
  shows "py_sq (Fin a) = Inr (Fin (a\<^sup>2))"
proof -
  have "\<bar>a\<bar>\<^sup>2 \<le> (10 ^ 150)\<^sup>2" using assms(2) by (intro power_mono) simp_all
  then have up: "a\<^sup>2 \<le> 10 ^ 300" by simp
  have "(1 / 10 ^ 150)\<^sup>2 \<le> \<bar>a\<bar>\<^sup>2" using assms(1) by (intro power_mono) simp_all
  then have lo: "1 / 10 ^ 300 \<le> a\<^sup>2" by (simp add: power_divide)
  have "(10::real) ^ 300 < dbl_overflow" by (simp add: dbl_overflow_def)
  with up have 1: "\<not> dbl_overflow \<le> a\<^sup>2" by linarith
  have "dbl_underflow < 1 / 10 ^ 300" by (simp add: dbl_underflow_def)
  with lo have 2: "\<not> a\<^sup>2 \<le> dbl_underflow" by linarith
  show ?thesis using 1 2 by (simp add: py_sq.simps(1))
qed

lemma py_sq_ok: "in_range a \<Longrightarrow> py_sq (Fin a) = Inr (Fin (a\<^sup>2))"
  using py_sq_in_range [of a] by (auto simp: in_range_def)

lemma py_sq_overflow: "py_sq (Fin (10 ^ 200)) = Inl OverflowError"
  by (simp add: py_sq.simps(1) dbl_overflow_def)

lemma py_sq_underflow: "py_sq (Fin (1 / 10 ^ 200)) = Inr (Fin 0)"
  by (simp add: py_sq.simps(1) dbl_overflow_def dbl_underflow_def power_divide)

section \<open>The matrix product\<close>

lemma py_index_Inr: "i < length xs \<Longrightarrow> py_index xs i = Inr (xs ! i)"
  by (simp add: py_index_def)

lemma mapE_ok:
  "(\<And>x. x \<in> set xs \<Longrightarrow> \<exists>y. f x = Inr y \<and> P y)
     \<Longrightarrow> \<exists>ys. mapE f xs = Inr ys \<and> length ys = length xs \<and> list_all P ys"
proof (induction xs)
  case Nil
  then show ?case by simp
next
  case (Cons x xs)
  from Cons.prems obtain y where y: "f x = Inr y" "P y" by auto
  from Cons obtain ys where ys: "mapE f xs = Inr ys" "length ys = length xs" "list_all P ys"
    by auto
  show ?case using y ys by simp
qed

lemma mm_k_ok:
  "i < length A
     \<Longrightarrow> (\<And>k. k \<in> set ks \<Longrightarrow> k < length (A ! i) \<and> k < length B \<and> j < length (B ! k))
     \<Longrightarrow> \<exists>v. mm_k A B i j ks acc = Inr v"
proof (induction ks arbitrary: acc)
  case Nil
  then show ?case by simp
next
  case (Cons k ks)
  then show ?case by (simp add: py_index_Inr)
qed

lemma matrix_multiply_ok:
  assumes A: "is_matrix m n A" and B: "is_matrix n p B" and m: "0 < m" and n: "0 < n"
  shows "\<exists>C. matrix_multiply A B = Inr C \<and> is_matrix m p C"
proof -
  have lenA: "length A = m" and rowsA: "\<And>i. i < m \<Longrightarrow> length (A ! i) = n"
    using A by (auto simp: is_matrix_def list_all_length)
  have lenB: "length B = n" and rowsB: "\<And>k. k < n \<Longrightarrow> length (B ! k) = p"
    using B by (auto simp: is_matrix_def list_all_length)
  have cell: "\<exists>v. mm_k A B i j [0..<n] (Fin 0) = Inr v" if "i < m" "j < p" for i j
    using that by (intro mm_k_ok) (auto simp: lenA lenB rowsA rowsB)
  have row: "\<exists>r. mapE (\<lambda>j. mm_k A B i j [0..<n] (Fin 0)) [0..<p] = Inr r \<and> length r = p"
    if "i < m" for i
    using mapE_ok [of "[0..<p]" "\<lambda>j. mm_k A B i j [0..<n] (Fin 0)" "\<lambda>_. True"] cell [OF that]
    by auto
  have "\<exists>C. mapE (\<lambda>i. mapE (\<lambda>j. mm_k A B i j [0..<n] (Fin 0)) [0..<p]) [0..<m] = Inr C
          \<and> length C = length [0..<m] \<and> list_all (\<lambda>r. length r = p) C"
    by (rule mapE_ok) (use row in auto)
  then show ?thesis
    using m n by (auto simp: matrix_multiply_def py_index_Inr lenA lenB rowsA rowsB is_matrix_def)
qed

lemma matrix_multiply_mismatch:
  assumes A: "is_matrix m n A" and B: "is_matrix n' p B" and m: "0 < m" and n: "0 < n'"
    and ne: "n \<noteq> n'"
  shows "matrix_multiply A B = Inl matrix_dimension_error"
proof -
  have "length A = m" "length (A ! 0) = n" "length B = n'"
    using A B m by (auto simp: is_matrix_def list_all_length)
  then show ?thesis
    using m n ne by (simp add: matrix_multiply_def py_index_Inr)
qed

text \<open>The product of a matrix of three rows of three entries and a column of three entries.\<close>

lemma matrix_multiply_3x3_3x1:
  "matrix_multiply [[a, b, c], [d, e, f], [g, h, i]] [[x], [y], [z]] =
     Inr [[py_add (py_add (py_add (Fin 0) (py_mul a x)) (py_mul b y)) (py_mul c z)],
          [py_add (py_add (py_add (Fin 0) (py_mul d x)) (py_mul e y)) (py_mul f z)],
          [py_add (py_add (py_add (Fin 0) (py_mul g x)) (py_mul h y)) (py_mul i z)]]"
  by (simp add: matrix_multiply_def py_index_def upt_rec)

lemma r_sez_shape:
  "\<exists>v. r_sez lat lon (r_rel_ecef o_x_km o_y_km o_z_km x_km y_km z_km) = Inr v \<and> is_matrix 3 1 v"
  by (simp add: r_sez_def r_rel_ecef_def Rzinv_def Ryinv_def matrix_multiply_3x3_3x1
      is_matrix_def)

text \<open>
  C10: if either argument of \<open>matrix_multiply\<close> is a list with no rows, reading its first
  row raises IndexError before the dimensions are compared, so the dimension error is
  not what an empty argument produces.
\<close>

theorem matrix_multiply_empty:
  "matrix1 = [] \<or> matrix2 = [] \<Longrightarrow> matrix_multiply matrix1 matrix2 = Inl IndexError"
  by (cases matrix1) (auto simp: matrix_multiply_def py_index_def)

theorem matrix_multiply_empty_witness:
  "matrix_multiply [] [[Fin 1]] = Inl IndexError
   \<and> matrix_multiply [[Fin 1]] [] = Inl IndexError
   \<and> Inl IndexError \<noteq> (Inl matrix_dimension_error :: py_error + matrix)"
  using matrix_multiply_empty [of "[]" "[[Fin 1]]"] matrix_multiply_empty [of "[[Fin 1]]" "[]"]
  by (simp add: matrix_dimension_error_def)

text \<open>
  C6: for a matrix \<open>A\<close> of \<open>m\<close> rows and \<open>n\<close> columns and a matrix \<open>B\<close> of \<open>n'\<close> rows and \<open>p\<close>
  columns, each with at least one row, \<open>matrix_multiply\<close> raises the dimension error
  exactly when \<open>n \<noteq> n'\<close>; when \<open>n = n'\<close> it returns a matrix of \<open>m\<close> rows and \<open>p\<close> columns.
  The two products of the script, a 3 by 3 matrix with a column of three entries,
  return a column of three entries, so the error is not raised there.
\<close>

theorem matrix_multiply_dimensions:
  assumes "is_matrix m n A" and "is_matrix n' p B" and "0 < m" and "0 < n'"
  shows "(matrix_multiply A B = Inl matrix_dimension_error \<longleftrightarrow> n \<noteq> n')
       \<and> (n = n' \<longrightarrow> (\<exists>C. matrix_multiply A B = Inr C \<and> is_matrix m p C))
       \<and> (\<exists>v. r_sez lat lon (r_rel_ecef o_x_km o_y_km o_z_km x_km y_km z_km) = Inr v
              \<and> is_matrix 3 1 v)"
proof (cases "n = n'")
  case True
  with assms matrix_multiply_ok [of m n A p B] show ?thesis
    using r_sez_shape by auto
next
  case False
  with assms matrix_multiply_mismatch [of m n A n' p B] show ?thesis
    using r_sez_shape by auto
qed

theorem matrix_multiply_dimensions_witness:
  "is_matrix 1 2 [[Fin 1, Fin 2]] \<and> is_matrix 2 1 [[Fin 3], [Fin 4]]
   \<and> is_matrix 1 1 [[Fin 3]]
   \<and> matrix_multiply [[Fin 1, Fin 2]] [[Fin 3], [Fin 4]] \<noteq> Inl matrix_dimension_error
   \<and> (\<exists>C. matrix_multiply [[Fin 1, Fin 2]] [[Fin 3], [Fin 4]] = Inr C \<and> is_matrix 1 1 C)
   \<and> matrix_multiply [[Fin 1, Fin 2]] [[Fin 3]] = Inl matrix_dimension_error"
  using matrix_multiply_dimensions [of 1 2 "[[Fin 1, Fin 2]]" 2 1 "[[Fin 3], [Fin 4]]"]
    matrix_multiply_dimensions [of 1 2 "[[Fin 1, Fin 2]]" 1 1 "[[Fin 3]]"]
  by (simp add: is_matrix_def)

section \<open>The SEZ vector\<close>

text \<open>
  C3: for real latitude, longitude and coordinates, the result of the script's two
  products is the rotation \<open>Ry\<^sup>-\<^sup>1(lat)\<close> applied to the rotation \<open>Rz\<^sup>-\<^sup>1(lon)\<close> applied
  to the vector from the origin to the target, with the rows the specification gives,
  in that order; written out, the three components are the usual SEZ formulas, and
  the script prints components 0, 1 and 2 as S, E and Z.
\<close>

theorem r_sez_is_Ry_Rz:
  "r_sez (Fin lat) (Fin lon) (r_rel_ecef (Fin ox) (Fin oy) (Fin oz) (Fin x) (Fin y) (Fin z)) =
     Inr (column (spec_apply (spec_Ryinv lat)
            (spec_apply (spec_Rzinv lon) [x - ox, y - oy, z - oz])))
   \<and> spec_apply (spec_Ryinv lat) (spec_apply (spec_Rzinv lon) [x - ox, y - oy, z - oz]) =
       [sin lat * (cos lon * (x - ox) + sin lon * (y - oy)) - cos lat * (z - oz),
        cos lon * (y - oy) - sin lon * (x - ox),
        cos lat * (cos lon * (x - ox) + sin lon * (y - oy)) + sin lat * (z - oz)]
   \<and> printed (column [S, E, Z]) = Inr (Fin S, Fin E, Fin Z)"
  by (simp add: r_sez_def r_rel_ecef_def Rzinv_def Ryinv_def matrix_multiply_3x3_3x1
      spec_apply_def spec_Ryinv_def spec_Rzinv_def column_def printed_def py_index_def
      algebra_simps)

text \<open>
  C7: when the target is the origin, the transform returns the zero vector, for every
  real latitude and longitude.
\<close>

theorem r_sez_origin_is_zero:
  "r_sez (Fin lat) (Fin lon) (r_rel_ecef (Fin ox) (Fin oy) (Fin oz) (Fin ox) (Fin oy) (Fin oz)) =
     Inr (column [0, 0, 0])
   \<and> printed (column [0, 0, 0]) = Inr (Fin 0, Fin 0, Fin 0)"
  by (simp add: r_sez_def r_rel_ecef_def Rzinv_def Ryinv_def matrix_multiply_3x3_3x1
      column_def printed_def py_index_def)

section \<open>The origin at the centre of the Earth\<close>

text \<open>
  C2, as the code has it: for the origin \<open>(0, 0, 0)\<close> the longitude is 0, and the first
  estimate of the latitude divides 0 by 0, which raises ZeroDivisionError; the script
  prints nothing.
\<close>

theorem zero_origin_raises:
  "math_atan2 (Fin 0) (Fin 0) = Fin 0
   \<and> lat_init (Fin 0) (Fin 0) (Fin 0) = Inl ZeroDivisionError
   \<and> geodetic_solve (Fin 0) (Fin 0) (Fin 0) = Inl ZeroDivisionError
   \<and> ecef_to_sez (Fin 0) (Fin 0) (Fin 0) x_km y_km z_km = Inl ZeroDivisionError"
  by (simp add: ecef_to_sez_def geodetic_solve_def lat_init_def atan2_def)

text \<open>The claim as the specification states it fails: no NaN is printed.\<close>

theorem zero_origin_counterexample:
  "ecef_to_sez (Fin 0) (Fin 0) (Fin 0) (Fin 1) (Fin 2) (Fin 3) \<noteq> Inr (NaN, NaN, NaN)
   \<and> ecef_to_sez (Fin 0) (Fin 0) (Fin 0) (Fin 1) (Fin 2) (Fin 3) = Inl ZeroDivisionError"
  by (simp add: ecef_to_sez_def geodetic_solve_def lat_init_def)

section \<open>One run of the loop body\<close>

lemma calc_denom_Fin:
  assumes "\<bar>e\<bar> < 1"
  shows "\<exists>d. calc_denom (Fin e) (Fin l) = Inr (Fin d) \<and> 0 < d"
proof -
  from assms have "\<bar>e\<bar> \<le> 1" by simp
  from py_sq_le_1 [OF this] obtain t1 where
    t1: "py_sq (Fin e) = Inr (Fin t1)" "0 \<le> t1" "t1 \<le> e\<^sup>2" by auto
  from assms have "e\<^sup>2 < 1" by (simp add: abs_square_less_1)
  with t1 have t1': "t1 < 1" by linarith
  from py_sq_le_1 [OF abs_sin_le_one [of l]] obtain t2 where
    t2: "py_sq (Fin (sin l)) = Inr (Fin t2)" "0 \<le> t2" "t2 \<le> (sin l)\<^sup>2" "(sin l)\<^sup>2 \<le> 1"
    by auto
  have "t1 * t2 \<le> t1 * 1" using t1 t2 by (intro mult_left_mono) linarith+
  with t1' have pos: "0 < 1 - t1 * t2" by linarith
  show ?thesis using t1(1) t2(1) pos by (simp add: calc_denom_def)
qed

lemma calc_denom_NaN:
  assumes "\<bar>e\<bar> < 1"
  shows "calc_denom (Fin e) NaN = Inr NaN"
proof -
  from assms have "\<bar>e\<bar> \<le> 1" by simp
  from py_sq_le_1 [OF this] obtain t1 where t1: "py_sq (Fin e) = Inr (Fin t1)" by auto
  show ?thesis using t1 by (simp add: calc_denom_def)
qed

lemma E_E_Fin: "\<exists>e. E_E = Fin e \<and> \<bar>e\<bar> < 1"
  by (rule exI [of _ "0.081819221456"]) (simp add: E_E_def)

lemma R_E_KM_Fin: "\<exists>R. R_E_KM = Fin R"
  by (rule exI [of _ "6378.137"]) (simp add: R_E_KM_def)

lemma loop_body_pole: "loop_body o_z_km (Fin 0) s = Inl ZeroDivisionError"
proof -
  obtain e where e: "E_E = Fin e" "\<bar>e\<bar> < 1" using E_E_Fin by auto
  obtain R where R: "R_E_KM = Fin R" using R_E_KM_Fin by auto
  from e(2) have "\<bar>e\<bar> \<le> 1" by simp
  from py_sq_le_1 [OF this] obtain t1 where t1: "py_sq (Fin e) = Inr (Fin t1)" by auto
  show ?thesis
  proof (cases "o_lat_rad s")
    case (Fin l)
    from calc_denom_Fin [OF e(2), of l] obtain d where
      d: "calc_denom (Fin e) (Fin l) = Inr (Fin d)" "0 < d" by auto
    show ?thesis using d by (simp add: loop_body_def e(1) R Fin t1)
  next
    case NaN
    show ?thesis by (simp add: loop_body_def e(1) R NaN t1 calc_denom_NaN [OF e(2)])
  qed
qed

lemma loop_body_step:
  assumes "r_lon_km \<noteq> Fin 0"
  shows "\<exists>s'. loop_body o_z_km r_lon_km s = Inr s' \<and> prev_lat_rad s' = o_lat_rad s
           \<and> count s' = count s + 1
           \<and> (if o_z_km = NaN \<or> r_lon_km = NaN \<or> o_lat_rad s = NaN then o_lat_rad s' = NaN
              else \<exists>t. o_lat_rad s' = Fin (arctan t))"
proof -
  obtain e where e: "E_E = Fin e" "\<bar>e\<bar> < 1" using E_E_Fin by auto
  obtain R where R: "R_E_KM = Fin R" using R_E_KM_Fin by auto
  from e(2) have "\<bar>e\<bar> \<le> 1" by simp
  from py_sq_le_1 [OF this] obtain t1 where t1: "py_sq (Fin e) = Inr (Fin t1)" by auto
  show ?thesis
  proof (cases "o_lat_rad s")
    case (Fin l)
    from calc_denom_Fin [OF e(2), of l] obtain d where
      d: "calc_denom (Fin e) (Fin l) = Inr (Fin d)" "0 < d" by auto
    show ?thesis using assms d
      by (cases o_z_km; cases r_lon_km) (auto simp add: loop_body_def e(1) R Fin t1)
  next
    case NaN
    show ?thesis using assms
      by (cases o_z_km; cases r_lon_km)
        (simp_all add: loop_body_def e(1) R NaN t1 calc_denom_NaN [OF e(2)])
  qed
qed

section \<open>The latitude loop\<close>

text \<open>The loop returns what some number of runs of its body returns.\<close>

lemma body_iter_snoc:
  "body_iter (Suc n) o_z_km r_lon_km s
     = bindE (body_iter n o_z_km r_lon_km s) (loop_body o_z_km r_lon_km)"
proof (induction n arbitrary: s)
  case 0
  show ?case by (cases "loop_body o_z_km r_lon_km s") simp_all
next
  case (Suc n)
  show ?case
  proof (cases "loop_body o_z_km r_lon_km s")
    case (Inl e)
    then show ?thesis by simp
  next
    case (Inr s1)
    have "body_iter (Suc (Suc n)) o_z_km r_lon_km s = body_iter (Suc n) o_z_km r_lon_km s1"
      using Inr by simp
    also have "\<dots> = bindE (body_iter n o_z_km r_lon_km s1) (loop_body o_z_km r_lon_km)"
      by (rule Suc.IH)
    also have "body_iter n o_z_km r_lon_km s1 = body_iter (Suc n) o_z_km r_lon_km s"
      using Inr by simp
    finally show ?thesis .
  qed
qed

lemma lat_loop_trace:
  "count s \<le> 5 \<Longrightarrow>
   \<exists>n. n + count s \<le> 5
     \<and> lat_loop o_z_km r_lon_km s = body_iter n o_z_km r_lon_km s
     \<and> (\<forall>k<n. \<exists>s'. body_iter k o_z_km r_lon_km s = Inr s' \<and> loop_cond s')
     \<and> (\<forall>s'. body_iter n o_z_km r_lon_km s = Inr s'
            \<longrightarrow> \<not> loop_cond s' \<and> count s' = count s + n)"
proof (induction o_z_km r_lon_km s rule: lat_loop.induct)
  case (1 o_z_km r_lon_km s)
  show ?case
  proof (cases "loop_cond s")
    case False
    then show ?thesis
      by (intro exI [of _ 0]) (simp add: lat_loop.simps [of o_z_km r_lon_km s] "1.prems")
  next
    case True
    then have lt: "count s < 5" by (simp add: loop_cond_def)
    show ?thesis
    proof (cases "loop_body o_z_km r_lon_km s")
      case (Inl e)
      show ?thesis
        using True Inl lt
        by (intro exI [of _ 1]) (simp add: lat_loop.simps [of o_z_km r_lon_km s])
    next
      case (Inr s1)
      have c1: "count s1 = count s + 1" using Inr by (rule loop_body_count)
      with lt have "count s1 \<le> 5" by simp
      from "1.IH" [OF True Inr this] obtain n where n:
        "n + count s1 \<le> 5"
        "lat_loop o_z_km r_lon_km s1 = body_iter n o_z_km r_lon_km s1"
        "\<forall>k<n. \<exists>s'. body_iter k o_z_km r_lon_km s1 = Inr s' \<and> loop_cond s'"
        "\<forall>s'. body_iter n o_z_km r_lon_km s1 = Inr s'
            \<longrightarrow> \<not> loop_cond s' \<and> count s' = count s1 + n"
        by blast
      have a: "Suc n + count s \<le> 5" using n(1) c1 by simp
      have b: "lat_loop o_z_km r_lon_km s = body_iter (Suc n) o_z_km r_lon_km s"
        using True Inr n(2) by (simp add: lat_loop.simps [of o_z_km r_lon_km s])
      have c: "\<forall>k<Suc n. \<exists>s'. body_iter k o_z_km r_lon_km s = Inr s' \<and> loop_cond s'"
      proof (intro allI impI)
        fix k assume k: "k < Suc n"
        show "\<exists>s'. body_iter k o_z_km r_lon_km s = Inr s' \<and> loop_cond s'"
        proof (cases k)
          case 0
          then show ?thesis using True by simp
        next
          case (Suc j)
          with k have "j < n" by simp
          with n(3) show ?thesis using Suc Inr by simp
        qed
      qed
      have d: "\<forall>s'. body_iter (Suc n) o_z_km r_lon_km s = Inr s'
            \<longrightarrow> \<not> loop_cond s' \<and> count s' = count s + Suc n"
        using n(4) c1 Inr by simp
      from a b c d show ?thesis by (intro exI [of _ "Suc n"]) blast
    qed
  qed
qed


lemma loop_cond_start: "loop_cond (lat_start lat0)"
  by (simp add: loop_cond_def lat_start_def)

lemma body_iter_inv:
  assumes r: "r_lon_km \<noteq> Fin 0"
    and nan: "o_z_km = NaN \<or> r_lon_km = NaN \<Longrightarrow> o_lat_rad s = NaN"
  shows "\<exists>s'. body_iter n o_z_km r_lon_km s = Inr s' \<and> count s' = count s + n
           \<and> (o_lat_rad s' = NaN \<longleftrightarrow> o_lat_rad s = NaN)
           \<and> (0 < n \<longrightarrow> (prev_lat_rad s' = NaN \<longleftrightarrow> o_lat_rad s = NaN)
                 \<and> (o_lat_rad s \<noteq> NaN \<longrightarrow> (\<exists>t. o_lat_rad s' = Fin (arctan t))))"
proof (induction n)
  case 0
  show ?case by simp
next
  case (Suc n)
  then obtain sp where sp:
    "body_iter n o_z_km r_lon_km s = Inr sp" "count sp = count s + n"
    "o_lat_rad sp = NaN \<longleftrightarrow> o_lat_rad s = NaN"
    by blast
  from loop_body_step [OF r, of o_z_km sp] obtain s' where s':
    "loop_body o_z_km r_lon_km sp = Inr s'" "prev_lat_rad s' = o_lat_rad sp"
    "count s' = count sp + 1"
    "if o_z_km = NaN \<or> r_lon_km = NaN \<or> o_lat_rad sp = NaN then o_lat_rad s' = NaN
     else \<exists>t. o_lat_rad s' = Fin (arctan t)"
    by blast
  have it: "body_iter (Suc n) o_z_km r_lon_km s = Inr s'"
    by (simp only: body_iter_snoc sp(1) bindE.simps s'(1))
  show ?case
  proof (cases "o_lat_rad s = NaN")
    case True
    with sp(3) s'(4) have "o_lat_rad s' = NaN" by simp
    with it s' sp True show ?thesis by simp
  next
    case False
    with nan have "\<not> (o_z_km = NaN \<or> r_lon_km = NaN)" by blast
    with False sp(3) s'(4) obtain t where t: "o_lat_rad s' = Fin (arctan t)" by auto
    then have "\<exists>t. o_lat_rad s' = Fin (arctan t)" by blast
    with it s'(2,3) sp(2,3) False t show ?thesis by simp
  qed
qed

lemma lat_init_nan:
  "lat_init o_x_km o_y_km o_z_km = Inr (lat0, r_lon_km) \<Longrightarrow>
   o_z_km = NaN \<or> r_lon_km = NaN \<Longrightarrow> lat0 = NaN"
  by (cases o_x_km; cases o_y_km; cases o_z_km)
    (auto simp: lat_init_def bindE_Inr py_sq.simps(1) split: if_splits)




lemma lat_loop_start:
  "\<exists>n. 1 \<le> n \<and> n \<le> 5
     \<and> lat_loop o_z_km r_lon_km (lat_start lat0) = body_iter n o_z_km r_lon_km (lat_start lat0)
     \<and> (\<forall>k<n. \<exists>s. body_iter k o_z_km r_lon_km (lat_start lat0) = Inr s \<and> loop_cond s)
     \<and> (\<forall>s. body_iter n o_z_km r_lon_km (lat_start lat0) = Inr s
           \<longrightarrow> \<not> loop_cond s \<and> count s = n)"
proof -
  let ?s0 = "lat_start lat0"
  have c0: "count ?s0 = 0" by (simp add: lat_start_def)
  then have "count ?s0 \<le> 5" by simp
  from lat_loop_trace [OF this, of o_z_km r_lon_km] c0 obtain n where n:
    "n \<le> 5"
    "lat_loop o_z_km r_lon_km ?s0 = body_iter n o_z_km r_lon_km ?s0"
    "\<forall>k<n. \<exists>s'. body_iter k o_z_km r_lon_km ?s0 = Inr s' \<and> loop_cond s'"
    "\<forall>s'. body_iter n o_z_km r_lon_km ?s0 = Inr s' \<longrightarrow> \<not> loop_cond s' \<and> count s' = n"
    by auto
  have n1: "1 \<le> n"
  proof (rule ccontr)
    assume "\<not> 1 \<le> n"
    then have "n = 0" by simp
    with n(4) have "\<not> loop_cond ?s0" by simp
    with loop_cond_start show False by blast
  qed
  from n1 n show ?thesis by blast
qed

lemma lat_loop_pole: "lat_loop o_z_km (Fin 0) (lat_start lat0) = Inl ZeroDivisionError"
  using loop_cond_start [of lat0]
  by (simp add: lat_loop.simps [of o_z_km "Fin 0" "lat_start lat0"] loop_body_pole)

lemma lat_loop_ok:
  assumes r: "r_lon_km \<noteq> Fin 0"
    and nan: "o_z_km = NaN \<or> r_lon_km = NaN \<Longrightarrow> lat0 = NaN"
  shows "\<exists>s. lat_loop o_z_km r_lon_km (lat_start lat0) = Inr s
           \<and> 1 \<le> count s \<and> count s \<le> 5
           \<and> (o_lat_rad s = NaN \<longleftrightarrow> lat0 = NaN)
           \<and> (lat0 \<noteq> NaN \<longrightarrow> (\<exists>t. o_lat_rad s = Fin (arctan t)))"
proof -
  let ?s0 = "lat_start lat0"
  from lat_loop_start [of o_z_km r_lon_km lat0] obtain n where n:
    "1 \<le> n" "n \<le> 5"
    "lat_loop o_z_km r_lon_km ?s0 = body_iter n o_z_km r_lon_km ?s0"
    by blast
  have l0: "o_lat_rad ?s0 = lat0" and c0: "count ?s0 = 0" by (simp_all add: lat_start_def)
  have nan': "o_lat_rad ?s0 = NaN" if "o_z_km = NaN \<or> r_lon_km = NaN"
    using nan [OF that] by (simp add: lat_start_def)
  from body_iter_inv [OF r nan', where n = n] obtain s where s:
    "body_iter n o_z_km r_lon_km ?s0 = Inr s" "count s = count ?s0 + n"
    "o_lat_rad s = NaN \<longleftrightarrow> o_lat_rad ?s0 = NaN"
    "0 < n \<longrightarrow> (prev_lat_rad s = NaN \<longleftrightarrow> o_lat_rad ?s0 = NaN)
       \<and> (o_lat_rad ?s0 \<noteq> NaN \<longrightarrow> (\<exists>t. o_lat_rad s = Fin (arctan t)))"
    by blast
  from n(1) s(4) have t: "o_lat_rad ?s0 \<noteq> NaN \<longrightarrow> (\<exists>t. o_lat_rad s = Fin (arctan t))"
    by simp
  from n(3) s(1) have 1: "lat_loop o_z_km r_lon_km ?s0 = Inr s" by simp
  from s(2) c0 n(1,2) have 2: "1 \<le> count s" "count s \<le> 5" by simp_all
  from s(3) l0 have 3: "o_lat_rad s = NaN \<longleftrightarrow> lat0 = NaN" by simp
  from t l0 have 4: "lat0 \<noteq> NaN \<longrightarrow> (\<exists>t. o_lat_rad s = Fin (arctan t))" by simp
  from 1 2 3 4 show ?thesis by blast
qed



section \<open>The latitude and the longitude of the origin\<close>

lemma py_add_NaN [simp]: "py_add a NaN = NaN"
  by (cases a) simp_all

lemma py_sub_NaN [simp]: "py_sub a NaN = NaN"
  by (cases a) simp_all

lemma py_mul_NaN [simp]: "py_mul a NaN = NaN"
  by (cases a) simp_all

lemma lat_init_Fin:
  assumes "in_range x" and "in_range y" and "in_range z" and "\<not> (x = 0 \<and> y = 0)"
  shows "lat_init (Fin x) (Fin y) (Fin z)
           = Inr (Fin (arcsin (z / sqrt (x\<^sup>2 + y\<^sup>2 + z\<^sup>2))), Fin (sqrt (x\<^sup>2 + y\<^sup>2)))"
    and "sqrt (x\<^sup>2 + y\<^sup>2) \<noteq> 0"
proof -
  from assms(4) have pos: "0 < x\<^sup>2 + y\<^sup>2" by (auto simp: sum_power2_gt_zero_iff)
  then have n: "0 < x\<^sup>2 + y\<^sup>2 + z\<^sup>2" by (simp add: add_pos_nonneg)
  then have N: "0 < sqrt (x\<^sup>2 + y\<^sup>2 + z\<^sup>2)" by simp
  have "\<bar>z\<bar>\<^sup>2 \<le> x\<^sup>2 + y\<^sup>2 + z\<^sup>2" by simp
  then have "\<bar>z\<bar> \<le> sqrt (x\<^sup>2 + y\<^sup>2 + z\<^sup>2)" by (rule real_le_rsqrt)
  with N have "\<bar>z\<bar> / sqrt (x\<^sup>2 + y\<^sup>2 + z\<^sup>2) \<le> 1" by simp
  with N have "\<bar>z / sqrt (x\<^sup>2 + y\<^sup>2 + z\<^sup>2)\<bar> \<le> 1" by simp
  then have ratio: "\<not> z / sqrt (x\<^sup>2 + y\<^sup>2 + z\<^sup>2) < - 1" "\<not> 1 < z / sqrt (x\<^sup>2 + y\<^sup>2 + z\<^sup>2)"
    by linarith+
  from n have n0: "\<not> x\<^sup>2 + y\<^sup>2 + z\<^sup>2 < 0" "x\<^sup>2 + y\<^sup>2 + z\<^sup>2 \<noteq> 0" by linarith+
  from pos have p0: "\<not> x\<^sup>2 + y\<^sup>2 < 0" "x\<^sup>2 + y\<^sup>2 \<noteq> 0" by linarith+
  from pos have "0 < sqrt (x\<^sup>2 + y\<^sup>2)" by (rule real_sqrt_gt_zero)
  then show "sqrt (x\<^sup>2 + y\<^sup>2) \<noteq> 0" by linarith
  show "lat_init (Fin x) (Fin y) (Fin z)
           = Inr (Fin (arcsin (z / sqrt (x\<^sup>2 + y\<^sup>2 + z\<^sup>2))), Fin (sqrt (x\<^sup>2 + y\<^sup>2)))"
    using ratio n0 p0 by (simp add: lat_init_def py_sq_ok assms(1,2,3))
qed

lemma lat_init_ok:
  assumes "ok_coord o_x_km" and "ok_coord o_y_km" and "ok_coord o_z_km"
    and "\<not> (o_x_km = Fin 0 \<and> o_y_km = Fin 0)"
  shows "\<exists>lat0 r_lon_km. lat_init o_x_km o_y_km o_z_km = Inr (lat0, r_lon_km)
           \<and> r_lon_km \<noteq> Fin 0
           \<and> (o_x_km \<noteq> NaN \<and> o_y_km \<noteq> NaN \<and> o_z_km \<noteq> NaN \<longrightarrow> lat0 \<noteq> NaN)"
proof (cases o_x_km)
  case NaN
  show ?thesis
  proof (cases o_y_km)
    case y: NaN
    show ?thesis using assms(3)
      by (cases o_z_km) (simp_all add: lat_init_def NaN y py_sq_ok)
  next
    case y: (Fin b)
    show ?thesis using assms(2,3)
      by (cases o_z_km) (simp_all add: lat_init_def NaN y py_sq_ok)
  qed
next
  case x: (Fin a)
  show ?thesis
  proof (cases o_y_km)
    case y: NaN
    show ?thesis using assms(1,3)
      by (cases o_z_km) (simp_all add: lat_init_def x y py_sq_ok)
  next
    case y: (Fin b)
    from assms(4) have ab: "\<not> (a = 0 \<and> b = 0)" by (simp add: x y)
    then have pos: "0 < a\<^sup>2 + b\<^sup>2" by (auto simp: sum_power2_gt_zero_iff)
    then have p0: "\<not> a\<^sup>2 + b\<^sup>2 < 0" "a\<^sup>2 + b\<^sup>2 \<noteq> 0" by linarith+
    show ?thesis
    proof (cases o_z_km)
      case NaN
      show ?thesis using assms(1,2) p0 by (simp add: lat_init_def x y NaN py_sq_ok)
    next
      case (Fin c)
      from assms(1,2,3) have r: "in_range a" "in_range b" "in_range c" by (simp_all add: x y Fin)
      from lat_init_Fin [OF r ab] show ?thesis by (simp add: x y Fin)
    qed
  qed
qed

lemma geodetic_solve_ok:
  assumes "ok_coord o_x_km" and "ok_coord o_y_km" and "ok_coord o_z_km"
    and "\<not> (o_x_km = Fin 0 \<and> o_y_km = Fin 0)"
  shows "\<exists>s. geodetic_solve o_x_km o_y_km o_z_km = Inr (s, math_atan2 o_y_km o_x_km)
           \<and> 1 \<le> count s \<and> count s \<le> 5
           \<and> (o_x_km \<noteq> NaN \<and> o_y_km \<noteq> NaN \<and> o_z_km \<noteq> NaN
                \<longrightarrow> (\<exists>t. o_lat_rad s = Fin (arctan t)))"
proof -
  from lat_init_ok [OF assms] obtain lat0 r_lon_km where i:
    "lat_init o_x_km o_y_km o_z_km = Inr (lat0, r_lon_km)" "r_lon_km \<noteq> Fin 0"
    "o_x_km \<noteq> NaN \<and> o_y_km \<noteq> NaN \<and> o_z_km \<noteq> NaN \<longrightarrow> lat0 \<noteq> NaN"
    by blast
  have nan: "lat0 = NaN" if "o_z_km = NaN \<or> r_lon_km = NaN"
    using lat_init_nan [OF i(1) that] .
  from lat_loop_ok [OF i(2) nan] obtain s where s:
    "lat_loop o_z_km r_lon_km (lat_start lat0) = Inr s" "1 \<le> count s" "count s \<le> 5"
    "lat0 \<noteq> NaN \<longrightarrow> (\<exists>t. o_lat_rad s = Fin (arctan t))"
    by blast
  have "geodetic_solve o_x_km o_y_km o_z_km = Inr (s, math_atan2 o_y_km o_x_km)"
    by (simp add: geodetic_solve_def i(1) s(1))
  with s(2,3,4) i(3) show ?thesis by blast
qed

lemma atan2_range: "- pi < atan2 y x \<and> atan2 y x \<le> pi"
proof -
  have b: "- (pi / 2) < arctan (y / x)" "arctan (y / x) < pi / 2"
    by (rule arctan_lbound, rule arctan_ubound)
  have p: "0 < pi" by simp
  consider "0 < x" | "x < 0" "0 \<le> y" | "x < 0" "y < 0" | "x = 0" "0 < y" | "x = 0" "y < 0"
    | "x = 0" "y = 0"
    by linarith
  then show ?thesis
  proof cases
    case 1
    then have "atan2 y x = arctan (y / x)" by (simp add: atan2_def)
    with b p show ?thesis by linarith
  next
    case 2
    then have "y / x \<le> 0" by (simp add: divide_nonneg_neg)
    then have "arctan (y / x) \<le> 0" by (simp add: arctan_le_zero_iff)
    moreover from 2 have "atan2 y x = arctan (y / x) + pi" by (simp add: atan2_def)
    ultimately show ?thesis using b p by linarith
  next
    case 3
    then have "0 < y / x" by (simp add: divide_neg_neg)
    then have "0 < arctan (y / x)" by (simp add: zero_less_arctan_iff)
    moreover from 3 have "atan2 y x = arctan (y / x) - pi" by (simp add: atan2_def)
    ultimately show ?thesis using b p by linarith
  next
    case 4
    then have "atan2 y x = pi / 2" by (simp add: atan2_def)
    with p show ?thesis by linarith
  next
    case 5
    then have "atan2 y x = - (pi / 2)" by (simp add: atan2_def)
    with p show ?thesis by linarith
  next
    case 6
    then have "atan2 y x = 0" by (simp add: atan2_def)
    with p show ?thesis by linarith
  qed
qed

text \<open>
  C5, as the code has it: for an origin whose coordinates are each zero or of magnitude
  between \<open>10\<^sup>-\<^sup>1\<^sup>5\<^sup>0\<close> and \<open>10\<^sup>1\<^sup>5\<^sup>0\<close>, and that is not on the polar axis, the first part of
  the script returns the longitude \<open>atan2 y x\<close>, in \<open>(-\<pi>, \<pi>]\<close>, and a latitude in
  \<open>(-\<pi>/2, \<pi>/2)\<close>.
\<close>

theorem geodetic_solve_range:
  assumes "in_range x" and "in_range y" and "in_range z" and "\<not> (x = 0 \<and> y = 0)"
  shows "\<exists>s lat lon. geodetic_solve (Fin x) (Fin y) (Fin z) = Inr (s, Fin lon)
           \<and> o_lat_rad s = Fin lat
           \<and> lon = atan2 y x \<and> - pi < lon \<and> lon \<le> pi
           \<and> - (pi / 2) < lat \<and> lat < pi / 2"
proof -
  from assms have ok: "ok_coord (Fin x)" "ok_coord (Fin y)" "ok_coord (Fin z)"
    "\<not> (Fin x = Fin 0 \<and> Fin y = Fin 0)" by simp_all
  from geodetic_solve_ok [OF ok] obtain s t where s:
    "geodetic_solve (Fin x) (Fin y) (Fin z) = Inr (s, Fin (atan2 y x))"
    "o_lat_rad s = Fin (arctan t)"
    by auto
  from s atan2_range [of y x] arctan_lbound [of t] arctan_ubound [of t]
  show ?thesis by blast
qed

theorem geodetic_solve_range_witness:
  "in_range 1 \<and> in_range 0 \<and> \<not> ((1::real) = 0 \<and> (0::real) = 0)
   \<and> (\<exists>s lat lon. geodetic_solve (Fin 1) (Fin 0) (Fin 0) = Inr (s, Fin lon)
           \<and> o_lat_rad s = Fin lat
           \<and> lon = atan2 0 1 \<and> - pi < lon \<and> lon \<le> pi
           \<and> - (pi / 2) < lat \<and> lat < pi / 2)"
  using geodetic_solve_range [of 1 0 0] by (simp add: in_range_def)

text \<open>
  The claim as the specification states it fails for origins that are neither the zero
  vector nor on the polar axis: \<^verbatim>\<open>o_x_km**2\<close> raises OverflowError at \<open>10\<^sup>2\<^sup>0\<^sup>0\<close>, and at
  \<open>10\<^sup>-\<^sup>2\<^sup>0\<^sup>0\<close> it is zero, so that \<^verbatim>\<open>r_lon_km\<close> is zero and the loop divides by it.
\<close>

theorem geodetic_solve_counterexample:
  "geodetic_solve (Fin (10 ^ 200)) (Fin 0) (Fin 0) = Inl OverflowError
   \<and> geodetic_solve (Fin (1 / 10 ^ 200)) (Fin 0) (Fin 1) = Inl ZeroDivisionError"
proof -
  have 1: "geodetic_solve (Fin (10 ^ 200)) (Fin 0) (Fin 0) = Inl OverflowError"
    by (simp only: geodetic_solve_def lat_init_def py_sq_overflow bindE.simps Let_def)
  have "in_range 1" by (simp add: in_range_def)
  then have sq1: "py_sq (Fin 1) = Inr (Fin 1)" using py_sq_ok [of 1] by simp
  have "lat_init (Fin (1 / 10 ^ 200)) (Fin 0) (Fin 1) =
      bindE (math_sqrt (py_add (py_add (Fin 0) (Fin 0)) (Fin 1))) (\<lambda>norm.
      bindE (py_div (Fin 1) norm) (\<lambda>ratio.
      bindE (math_asin ratio) (\<lambda>lat0.
      bindE (math_sqrt (py_add (Fin 0) (Fin 0))) (\<lambda>r_lon_km. Inr (lat0, r_lon_km)))))"
    by (simp only: lat_init_def py_sq_underflow py_sq_zero sq1 bindE.simps)
  then have i: "lat_init (Fin (1 / 10 ^ 200)) (Fin 0) (Fin 1) = Inr (Fin (arcsin 1), Fin 0)"
    by simp
  have 2: "geodetic_solve (Fin (1 / 10 ^ 200)) (Fin 0) (Fin 1) = Inl ZeroDivisionError"
    by (simp only: geodetic_solve_def i lat_loop_pole bindE.simps Let_def prod.case)
  from 1 2 show ?thesis by blast
qed

section \<open>NaN among the inputs\<close>

lemma r_sez_nan:
  "a = NaN \<or> b = NaN \<or> c = NaN \<Longrightarrow> r_sez lat lon [[a], [b], [c]] = Inr [[NaN], [NaN], [NaN]]"
  by (auto simp: r_sez_def Rzinv_def Ryinv_def matrix_multiply_3x3_3x1)

lemma printed_nan: "printed [[NaN], [NaN], [NaN]] = Inr (NaN, NaN, NaN)"
  by (simp add: printed_def py_index_def)

text \<open>
  C9, as the code has it: when one of the six inputs is NaN, the coordinates of the
  origin are each NaN, zero or of magnitude between \<open>10\<^sup>-\<^sup>1\<^sup>5\<^sup>0\<close> and \<open>10\<^sup>1\<^sup>5\<^sup>0\<close>, and its \<open>x\<close>
  and \<open>y\<close> are not both zero, the script raises nothing and prints three NaN.
\<close>

theorem nan_input_propagates:
  assumes "ok_coord o_x_km" and "ok_coord o_y_km" and "ok_coord o_z_km"
    and "\<not> (o_x_km = Fin 0 \<and> o_y_km = Fin 0)"
    and "o_x_km = NaN \<or> o_y_km = NaN \<or> o_z_km = NaN \<or> x_km = NaN \<or> y_km = NaN \<or> z_km = NaN"
  shows "ecef_to_sez o_x_km o_y_km o_z_km x_km y_km z_km = Inr (NaN, NaN, NaN)"
proof -
  from geodetic_solve_ok [OF assms(1-4)] obtain s where
    s: "geodetic_solve o_x_km o_y_km o_z_km = Inr (s, math_atan2 o_y_km o_x_km)"
    by blast
  from assms(5) have
    "py_sub x_km o_x_km = NaN \<or> py_sub y_km o_y_km = NaN \<or> py_sub z_km o_z_km = NaN"
    by auto
  from r_sez_nan [OF this] show ?thesis
    by (simp add: ecef_to_sez_def s r_rel_ecef_def printed_nan)
qed

theorem nan_input_propagates_witness:
  "ok_coord (Fin 1) \<and> ok_coord (Fin 0) \<and> ok_coord NaN
   \<and> ecef_to_sez (Fin 1) (Fin 0) (Fin 0) NaN (Fin 0) (Fin 0) = Inr (NaN, NaN, NaN)
   \<and> ecef_to_sez (Fin 1) (Fin 0) NaN (Fin 1) (Fin 2) (Fin 3) = Inr (NaN, NaN, NaN)"
  using nan_input_propagates [of "Fin 1" "Fin 0" "Fin 0" NaN "Fin 0" "Fin 0"]
    nan_input_propagates [of "Fin 1" "Fin 0" NaN "Fin 1" "Fin 2" "Fin 3"]
  by (simp add: in_range_def)

text \<open>
  The claim as the specification states it fails: for the origin \<open>(0, 0, NaN)\<close> the loop
  divides NaN by a \<^verbatim>\<open>r_lon_km\<close> that is zero, which raises ZeroDivisionError.
\<close>

theorem nan_input_counterexample:
  "ecef_to_sez (Fin 0) (Fin 0) NaN (Fin 1) (Fin 2) (Fin 3) = Inl ZeroDivisionError"
proof -
  have i: "lat_init (Fin 0) (Fin 0) NaN = Inr (NaN, Fin 0)"
    by (simp add: lat_init_def)
  have "lat_loop NaN (Fin 0) (lat_start NaN) = Inl ZeroDivisionError"
    using loop_cond_start [of NaN]
    by (simp add: lat_loop.simps [of NaN "Fin 0" "lat_start NaN"] loop_body_pole)
  with i show ?thesis by (simp add: ecef_to_sez_def geodetic_solve_def)
qed

section \<open>The test vector\<close>

text \<open>Bounds on quotients, products and square roots of numbers between bounds.\<close>

lemma sqrt_between:
  assumes "lo\<^sup>2 \<le> a" and "a \<le> hi\<^sup>2" and "0 \<le> hi"
  shows "lo \<le> sqrt a" and "sqrt a \<le> hi"
proof -
  from assms(1) show "lo \<le> sqrt a" by (rule real_le_rsqrt)
  from assms(3,2) show "sqrt a \<le> hi" by (rule real_le_lsqrt)
qed

lemma div_between_pos:
  fixes n :: real
  assumes "0 \<le> n_lo" and "n_lo \<le> n" and "n \<le> n_hi" and "0 < h_lo" and "h_lo \<le> h" and "h \<le> h_hi"
  shows "n_lo / h_hi \<le> n / h" and "n / h \<le> n_hi / h_lo"
proof -
  from assms show "n_lo / h_hi \<le> n / h" by (intro frac_le) linarith+
  from assms show "n / h \<le> n_hi / h_lo" by (intro frac_le) linarith+
qed

lemma div_between_neg:
  fixes n :: real
  assumes "n_lo \<le> n" and "n \<le> n_hi" and "n_hi \<le> 0" and "0 < h_lo" and "h_lo \<le> h" and "h \<le> h_hi"
  shows "n_lo / h_lo \<le> n / h" and "n / h \<le> n_hi / h_hi"
proof -
  from assms have "(- n) / h \<le> (- n_lo) / h_lo" by (intro frac_le) linarith+
  then show "n_lo / h_lo \<le> n / h" by simp
  from assms have "(- n_hi) / h_hi \<le> (- n) / h" by (intro frac_le) linarith+
  then show "n / h \<le> n_hi / h_hi" by simp
qed

lemma mult_between_pos_neg:
  fixes q a :: real
  assumes "0 \<le> q_lo" and "q_lo \<le> q" and "q \<le> q_hi" and "a_lo \<le> a" and "a \<le> a_hi" and "a_hi \<le> 0"
  shows "q_hi * a_lo \<le> q * a" and "q * a \<le> q_lo * a_hi"
proof -
  from assms have "q * (- a) \<le> q_hi * (- a_lo)" by (intro mult_mono) linarith+
  then show "q_hi * a_lo \<le> q * a" by simp
  from assms have "q_lo * (- a_hi) \<le> q * (- a)" by (intro mult_mono) linarith+
  then show "q * a \<le> q_lo * a_hi" by simp
qed

lemma abs_between: "c - tol \<le> v \<Longrightarrow> v \<le> c + tol \<Longrightarrow> \<bar>v - c\<bar> \<le> (tol::real)"
  by linarith

text \<open>One run of the loop body on real numbers, and the bounds it keeps.\<close>

lemma ecc_sq_sin: "\<bar>e\<bar> < 1 \<Longrightarrow> 0 < 1 - e\<^sup>2 * (sin (l::real))\<^sup>2"
proof -
  assume "\<bar>e\<bar> < 1"
  then have e: "e\<^sup>2 < 1" by (simp add: abs_square_less_1)
  have "(sin l)\<^sup>2 \<le> 1" using abs_sin_le_one [of l] by (simp add: abs_square_le_1)
  then have "e\<^sup>2 * (sin l)\<^sup>2 \<le> e\<^sup>2 * 1" by (intro mult_left_mono) simp_all
  with e show ?thesis by linarith
qed

lemma loop_body_Fin:
  assumes e: "E_E = Fin e" "\<bar>e\<bar> < 1" "in_range e" and R: "R_E_KM = Fin R"
    and l: "o_lat_rad s = Fin l" "in_range (sin l)" and r: "r \<noteq> 0"
  shows "\<exists>s'. loop_body (Fin z) (Fin r) s = Inr s'
           \<and> o_lat_rad s' = Fin (arctan ((z + R / sqrt (1 - e\<^sup>2 * (sin l)\<^sup>2) * e\<^sup>2 * sin l) / r))"
proof -
  from ecc_sq_sin [OF e(2), of l] have pos: "0 < 1 - e\<^sup>2 * (sin l)\<^sup>2" .
  then have d: "\<not> 1 - e\<^sup>2 * (sin l)\<^sup>2 < 0" "1 - e\<^sup>2 * (sin l)\<^sup>2 \<noteq> 0" by linarith+
  have c: "calc_denom (Fin e) (Fin l) = Inr (Fin (sqrt (1 - e\<^sup>2 * (sin l)\<^sup>2)))"
    using d by (simp add: calc_denom_def py_sq_ok [OF e(3)] py_sq_ok [OF l(2)])
  from d(2) have d0: "sqrt (1 - e\<^sup>2 * (sin l)\<^sup>2) \<noteq> 0" by simp
  show ?thesis
    using d0 r by (simp add: loop_body_def e(1) R l(1) c py_sq_ok [OF e(3)])
qed

lemma step_between:
  fixes s :: real
  assumes s: "s_lo \<le> s" "s \<le> s_hi" "0 \<le> s_lo"
    and e2: "e2_lo \<le> e2" "e2 \<le> e2_hi" "0 \<le> e2_lo"
    and d: "0 < d_lo" "d_lo\<^sup>2 \<le> 1 - e2_hi * s_hi\<^sup>2" "1 - e2_lo * s_lo\<^sup>2 \<le> d_hi\<^sup>2" "0 < d_hi"
    and r: "0 < r_lo" "r_lo \<le> r" "r \<le> r_hi"
    and z: "0 \<le> z" "0 \<le> R"
  shows "(z + R * e2_lo * s_lo / d_hi) / r_hi \<le> (z + R / sqrt (1 - e2 * s\<^sup>2) * e2 * s) / r"
    and "(z + R / sqrt (1 - e2 * s\<^sup>2) * e2 * s) / r \<le> (z + R * e2_hi * s_hi / d_lo) / r_lo"
proof -
  let ?d = "sqrt (1 - e2 * s\<^sup>2)"
  from s have s2: "s_lo\<^sup>2 \<le> s\<^sup>2" "s\<^sup>2 \<le> s_hi\<^sup>2" by (intro power_mono; linarith)+
  have "e2 * s\<^sup>2 \<le> e2_hi * s_hi\<^sup>2" using e2 s2 by (intro mult_mono) simp_all
  with d(2) have 1: "d_lo\<^sup>2 \<le> 1 - e2 * s\<^sup>2" by linarith
  have "e2_lo * s_lo\<^sup>2 \<le> e2 * s\<^sup>2" using e2 s2 by (intro mult_mono) simp_all
  with d(3) have 2: "1 - e2 * s\<^sup>2 \<le> d_hi\<^sup>2" by linarith
  from d(4) have "0 \<le> d_hi" by simp
  from sqrt_between [OF 1 2 this] have db: "d_lo \<le> ?d" "?d \<le> d_hi" .
  with d(1) have dpos: "0 < ?d" by linarith
  have "R * e2_lo \<le> R * e2" using z(2) e2(1) by (intro mult_left_mono)
  moreover have "0 \<le> R * e2_lo" using z(2) e2(3) by simp
  ultimately have n1: "R * e2_lo * s_lo \<le> R * e2 * s" "0 \<le> R * e2_lo * s_lo"
    using s by (simp_all add: mult_mono)
  have "R * e2 \<le> R * e2_hi" using z(2) e2(2) by (intro mult_left_mono)
  moreover have "0 \<le> R * e2" using z(2) e2 by simp
  ultimately have n2: "R * e2 * s \<le> R * e2_hi * s_hi"
    using s e2 z(2) by (intro mult_mono) simp_all
  from n1 n2 dpos d(1) db have
    f: "R * e2_lo * s_lo / d_hi \<le> R * e2 * s / ?d" "R * e2 * s / ?d \<le> R * e2_hi * s_hi / d_lo"
    by (intro frac_le; linarith)+
  have eq: "R / ?d * e2 * s = R * e2 * s / ?d" by simp
  have f0: "0 \<le> R * e2_lo * s_lo / d_hi" using n1(2) d(4) by simp
  from f f0 z(1) r show "(z + R * e2_lo * s_lo / d_hi) / r_hi \<le> (z + R / ?d * e2 * s) / r"
    unfolding eq by (intro frac_le) linarith+
  from f f0 z(1) r show "(z + R / ?d * e2 * s) / r \<le> (z + R * e2_hi * s_hi / d_lo) / r_lo"
    unfolding eq by (intro frac_le) linarith+
qed

lemma sin_arctan_between:
  assumes q: "q_lo \<le> q" "q \<le> q_hi" "0 \<le> q_lo"
    and m: "0 \<le> m_lo" "m_lo\<^sup>2 \<le> q_lo\<^sup>2 * (1 - m_lo\<^sup>2)" "q_hi\<^sup>2 * (1 - m_hi\<^sup>2) \<le> m_hi\<^sup>2" "0 \<le> m_hi"
      "m_lo \<le> 1" "m_hi \<le> 1"
  shows "m_lo \<le> sin (arctan q)" and "sin (arctan q) \<le> m_hi"
proof -
  let ?h = "sqrt (1 + q\<^sup>2)"
  have h: "0 < ?h" by (simp add: add_pos_nonneg)
  have h2: "?h\<^sup>2 = 1 + q\<^sup>2" by simp
  from q have q0: "0 \<le> q" by linarith
  from q have q2: "q_lo\<^sup>2 \<le> q\<^sup>2" "q\<^sup>2 \<le> q_hi\<^sup>2" by (intro power_mono; linarith)+
  have "0 \<le> 1 - m_lo\<^sup>2" using m(1,5) by (simp add: power_le_one)
  with q2(1) have "q_lo\<^sup>2 * (1 - m_lo\<^sup>2) \<le> q\<^sup>2 * (1 - m_lo\<^sup>2)" by (intro mult_right_mono)
  with m(2) have "m_lo\<^sup>2 * (1 + q\<^sup>2) \<le> q\<^sup>2" by (simp add: algebra_simps)
  then have "(m_lo * ?h)\<^sup>2 \<le> q\<^sup>2" by (simp add: power_mult_distrib)
  then have "m_lo * ?h \<le> q" using q0 by (rule power2_le_imp_le)
  then have "m_lo \<le> q / ?h" using h by (simp add: pos_le_divide_eq)
  then show "m_lo \<le> sin (arctan q)" by (simp add: sin_arctan)
  have "0 \<le> 1 - m_hi\<^sup>2" using m(4,6) by (simp add: power_le_one)
  with q2(2) have "q\<^sup>2 * (1 - m_hi\<^sup>2) \<le> q_hi\<^sup>2 * (1 - m_hi\<^sup>2)" by (intro mult_right_mono)
  with m(3) have "q\<^sup>2 \<le> m_hi\<^sup>2 * (1 + q\<^sup>2)" by (simp add: algebra_simps)
  then have "q\<^sup>2 \<le> (m_hi * ?h)\<^sup>2" by (simp add: power_mult_distrib)
  moreover have "0 \<le> m_hi * ?h" using m(4) h by simp
  ultimately have "q \<le> m_hi * ?h" by (rule power2_le_imp_le)
  then have "q / ?h \<le> m_hi" using h by (simp add: pos_divide_le_eq)
  then show "sin (arctan q) \<le> m_hi" by (simp add: sin_arctan)
qed

lemma body_iter_between:
  assumes step: "\<And>s l. o_lat_rad s = Fin l \<Longrightarrow> W (sin l)
      \<Longrightarrow> \<exists>s' q. loop_body o_z_km r_lon_km s = Inr s' \<and> o_lat_rad s' = Fin (arctan q) \<and> Q q"
    and QW: "\<And>q. Q q \<Longrightarrow> W (sin (arctan q))"
    and s: "o_lat_rad s = Fin l" "W (sin l)"
  shows "\<exists>s' q. body_iter (Suc n) o_z_km r_lon_km s = Inr s' \<and> o_lat_rad s' = Fin (arctan q) \<and> Q q"
proof (induction n)
  case 0
  from step [OF s] show ?case by auto
next
  case (Suc n)
  then obtain s1 q1 where s1: "body_iter (Suc n) o_z_km r_lon_km s = Inr s1"
    "o_lat_rad s1 = Fin (arctan q1)" "Q q1" by blast
  from step [OF s1(2) QW [OF s1(3)]] obtain s2 q2 where s2:
    "loop_body o_z_km r_lon_km s1 = Inr s2" "o_lat_rad s2 = Fin (arctan q2)" "Q q2" by blast
  have "body_iter (Suc (Suc n)) o_z_km r_lon_km s = Inr s2"
    by (simp only: body_iter_snoc [of "Suc n"] s1(1) bindE.simps s2(1))
  with s2 show ?case by blast
qed

lemma E_E_between:
  "\<exists>e. E_E = Fin e \<and> \<bar>e\<bar> < 1 \<and> in_range e \<and> 0.00669438 \<le> e\<^sup>2 \<and> e\<^sup>2 \<le> 0.00669439"
  by (rule exI [of _ "0.081819221456"]) (simp add: E_E_def in_range_def power2_eq_square)

text \<open>
  For the origin of the test vector the loop returns a latitude \<open>arctan q\<close> with \<open>q\<close> between
  0.853937 and 0.853961, however many times its body runs.
\<close>

lemma test_vector_solve:
  "\<exists>s q. geodetic_solve (Fin 822.933) (Fin (- 4787.187)) (Fin 4120.262)
             = Inr (s, Fin (arctan (- 4787.187 / 822.933)))
         \<and> o_lat_rad s = Fin (arctan q) \<and> 0.853937 \<le> q \<and> q \<le> 0.853961"
proof -
  define ox :: real where "ox = 822.933"
  define oy :: real where "oy = - 4787.187"
  define oz :: real where "oz = 4120.262"
  define W where "W = (\<lambda>s::real. 0.6468 \<le> s \<and> s \<le> 0.6494)"
  define Q where "Q = (\<lambda>q::real. 0.853937 \<le> q \<and> q \<le> 0.853961)"
  let ?r = "sqrt (ox\<^sup>2 + oy\<^sup>2)"
  let ?N = "sqrt (ox\<^sup>2 + oy\<^sup>2 + oz\<^sup>2)"
  have rng: "in_range ox" "in_range oy" "in_range oz"
    by (simp_all add: in_range_def ox_def oy_def oz_def)
  have np: "\<not> (ox = 0 \<and> oy = 0)" by (simp add: ox_def)
  from lat_init_Fin [OF rng np] have
    i: "lat_init (Fin ox) (Fin oy) (Fin oz) = Inr (Fin (arcsin (oz / ?N)), Fin ?r)"
    and r0: "?r \<noteq> 0" .
  have r_lo: "4857.4044 \<le> ?r"
    by (rule real_le_rsqrt) (simp add: ox_def oy_def power2_eq_square)
  have r_hi: "?r \<le> 4857.4045"
    by (rule real_le_lsqrt) (simp_all add: ox_def oy_def power2_eq_square)
  have N_lo: "6369.531 \<le> ?N"
    by (rule real_le_rsqrt) (simp add: ox_def oy_def oz_def power2_eq_square)
  have N_hi: "?N \<le> 6369.532"
    by (rule real_le_lsqrt) (simp_all add: ox_def oy_def oz_def power2_eq_square)
  have oz0: "0 \<le> oz" by (simp add: oz_def)
  have "(0::real) < 6369.531" by simp
  from div_between_pos [OF oz0 order_refl order_refl this N_lo N_hi]
  have "oz / 6369.532 \<le> oz / ?N" "oz / ?N \<le> oz / 6369.531" .
  moreover have "0.6468 \<le> oz / 6369.532" "oz / 6369.531 \<le> 0.6494"
    by (simp_all add: oz_def)
  ultimately have s0: "0.6468 \<le> oz / ?N" "oz / ?N \<le> 0.6494" by linarith+
  note s0
  moreover have "(- 1::real) \<le> 0.6468" "(0.6494::real) \<le> 1" by simp_all
  ultimately have "- 1 \<le> oz / ?N" "oz / ?N \<le> 1" by linarith+
  then have "sin (arcsin (oz / ?N)) = oz / ?N" by (rule sin_arcsin)
  with s0 have W0: "W (sin (arcsin (oz / ?N)))" by (simp add: W_def)
  from E_E_between obtain e where e: "E_E = Fin e" "\<bar>e\<bar> < 1" "in_range e"
    "0.00669438 \<le> e\<^sup>2" "e\<^sup>2 \<le> 0.00669439" by blast
  have R: "R_E_KM = Fin 6378.137" by (simp add: R_E_KM_def)
  have step: "\<exists>s' q. loop_body (Fin oz) (Fin ?r) s = Inr s' \<and> o_lat_rad s' = Fin (arctan q) \<and> Q q"
    if "o_lat_rad s = Fin l" and "W (sin l)" for s l
  proof -
    from that(2) have sl: "0.6468 \<le> sin l" "sin l \<le> 0.6494" by (simp_all add: W_def)
    have "1 / 10 ^ 150 \<le> (0.6468::real)" "(0.6494::real) \<le> 10 ^ 150" by simp_all
    with sl have "1 / 10 ^ 150 \<le> \<bar>sin l\<bar>" "\<bar>sin l\<bar> \<le> 10 ^ 150" by linarith+
    then have ir: "in_range (sin l)" by (simp add: in_range_def)
    let ?q = "(oz + 6378.137 / sqrt (1 - e\<^sup>2 * (sin l)\<^sup>2) * e\<^sup>2 * sin l) / ?r"
    from loop_body_Fin [OF e(1,2,3) R that(1) ir r0, of oz] obtain s' where s':
      "loop_body (Fin oz) (Fin ?r) s = Inr s'" "o_lat_rad s' = Fin (arctan ?q)"
      by blast
    have n: "(0::real) \<le> 0.6468" "(0::real) \<le> 0.00669438" "(0::real) < 0.998587"
      "(0.998587::real)\<^sup>2 \<le> 1 - 0.00669439 * 0.6494\<^sup>2"
      "1 - 0.00669438 * 0.6468\<^sup>2 \<le> (0.998599::real)\<^sup>2" "(0::real) < 0.998599"
      "(0::real) < 4857.4044" "(0::real) \<le> 6378.137"
      by (simp_all add: power2_eq_square)
    from step_between [OF sl n(1) e(4,5) n(2,3,4,5,6,7) r_lo r_hi oz0 n(8)]
    have b: "(oz + 6378.137 * 0.00669438 * 0.6468 / 0.998599) / 4857.4045 \<le> ?q"
      "?q \<le> (oz + 6378.137 * 0.00669439 * 0.6494 / 0.998587) / 4857.4044" .
    have "0.853937 \<le> (oz + 6378.137 * 0.00669438 * 0.6468 / 0.998599) / 4857.4045"
      "(oz + 6378.137 * 0.00669439 * 0.6494 / 0.998587) / 4857.4044 \<le> 0.853961"
      by (simp_all add: oz_def)
    with b have "0.853937 \<le> ?q" "?q \<le> 0.853961" by linarith+
    then have "Q ?q" by (simp add: Q_def)
    with s' show ?thesis by blast
  qed
  have QW: "W (sin (arctan q))" if "Q q" for q
  proof -
    from that have q: "0.853937 \<le> q" "q \<le> 0.853961" by (simp_all add: Q_def)
    have n: "(0::real) \<le> 0.853937" "(0::real) \<le> 0.6468"
      "(0.6468::real)\<^sup>2 \<le> 0.853937\<^sup>2 * (1 - 0.6468\<^sup>2)"
      "(0.853961::real)\<^sup>2 * (1 - 0.6494\<^sup>2) \<le> 0.6494\<^sup>2"
      "(0::real) \<le> 0.6494" "(0.6468::real) \<le> 1" "(0.6494::real) \<le> 1"
      by (simp_all add: power2_eq_square)
    from sin_arctan_between [OF q n] show ?thesis by (simp add: W_def)
  qed
  let ?s0 = "lat_start (Fin (arcsin (oz / ?N)))"
  from lat_loop_start [of "Fin oz" "Fin ?r" "Fin (arcsin (oz / ?N))"] obtain n where n:
    "1 \<le> n" "lat_loop (Fin oz) (Fin ?r) ?s0 = body_iter n (Fin oz) (Fin ?r) ?s0"
    by blast
  from n(1) have "0 < n" by simp
  then obtain m where m: "n = Suc m" using gr0_implies_Suc by blast
  have l0: "o_lat_rad ?s0 = Fin (arcsin (oz / ?N))" by (simp add: lat_start_def)
  have "\<exists>s q. body_iter (Suc m) (Fin oz) (Fin ?r) ?s0 = Inr s
      \<and> o_lat_rad s = Fin (arctan q) \<and> Q q"
  proof (rule body_iter_between [where W = W and Q = Q and l = "arcsin (oz / ?N)"])
    show "\<exists>s' q. loop_body (Fin oz) (Fin ?r) s = Inr s' \<and> o_lat_rad s' = Fin (arctan q) \<and> Q q"
      if "o_lat_rad s = Fin l" and "W (sin l)" for s l
      using that by (rule step)
    show "W (sin (arctan q))" if "Q q" for q
      using that by (rule QW)
    show "o_lat_rad ?s0 = Fin (arcsin (oz / ?N))" by (rule l0)
    show "W (sin (arcsin (oz / ?N)))" by (rule W0)
  qed
  then obtain s q where s: "body_iter (Suc m) (Fin oz) (Fin ?r) ?s0 = Inr s"
    "o_lat_rad s = Fin (arctan q)" "Q q"
    by blast
  from n(2) s(1) have ll: "lat_loop (Fin oz) (Fin ?r) ?s0 = Inr s" by (simp add: m)
  have "0 < ox" by (simp add: ox_def)
  then have lon: "atan2 oy ox = arctan (oy / ox)"
    by (simp add: atan2_def)
  have "geodetic_solve (Fin ox) (Fin oy) (Fin oz) = Inr (s, Fin (arctan (oy / ox)))"
    by (simp add: geodetic_solve_def i ll lon)
  with s(2,3) have main: "\<exists>s q. geodetic_solve (Fin ox) (Fin oy) (Fin oz)
             = Inr (s, Fin (arctan (oy / ox)))
         \<and> o_lat_rad s = Fin (arctan q) \<and> 0.853937 \<le> q \<and> q \<le> 0.853961"
    unfolding Q_def by blast
  from main show ?thesis unfolding ox_def oy_def oz_def .
qed

text \<open>The printed numbers for real inputs, and their bounds.\<close>

lemma sez_output_Fin:
  "bindE (r_sez (Fin lat) (Fin lon)
            (r_rel_ecef (Fin ox) (Fin oy) (Fin oz) (Fin x) (Fin y) (Fin z))) printed =
     Inr (Fin (sin lat * (cos lon * (x - ox) + sin lon * (y - oy)) - cos lat * (z - oz)),
          Fin (cos lon * (y - oy) - sin lon * (x - ox)),
          Fin (cos lat * (cos lon * (x - ox) + sin lon * (y - oy)) + sin lat * (z - oz)))"
  by (simp add: r_sez_def r_rel_ecef_def Rzinv_def Ryinv_def matrix_multiply_3x3_3x1
      printed_def py_index_def algebra_simps)

lemma lon_between:
  fixes t dx dy :: real
  assumes k: "0 < k_lo" "k_lo\<^sup>2 \<le> 1 + t\<^sup>2" "1 + t\<^sup>2 \<le> k_hi\<^sup>2" "0 \<le> k_hi"
    and A: "A_lo \<le> dx + t * dy" "dx + t * dy \<le> A_hi" "A_hi \<le> 0"
    and B: "0 \<le> B_lo" "B_lo \<le> dy - t * dx" "dy - t * dx \<le> B_hi"
  shows "A_lo / k_lo \<le> cos (arctan t) * dx + sin (arctan t) * dy"
    and "cos (arctan t) * dx + sin (arctan t) * dy \<le> A_hi / k_hi"
    and "B_lo / k_hi \<le> cos (arctan t) * dy - sin (arctan t) * dx"
    and "cos (arctan t) * dy - sin (arctan t) * dx \<le> B_hi / k_lo"
proof -
  let ?k = "sqrt (1 + t\<^sup>2)"
  from sqrt_between [OF k(2,3,4)] have kb: "k_lo \<le> ?k" "?k \<le> k_hi" .
  have k0: "0 < ?k" by (simp add: add_pos_nonneg)
  have a: "cos (arctan t) * dx + sin (arctan t) * dy = (dx + t * dy) / ?k"
    by (simp add: sin_arctan cos_arctan add_divide_distrib)
  have e: "cos (arctan t) * dy - sin (arctan t) * dx = (dy - t * dx) / ?k"
    by (simp add: sin_arctan cos_arctan diff_divide_distrib)
  from div_between_neg [OF A k(1) kb]
  show "A_lo / k_lo \<le> cos (arctan t) * dx + sin (arctan t) * dy"
    and "cos (arctan t) * dx + sin (arctan t) * dy \<le> A_hi / k_hi"
    unfolding a .
  from div_between_pos [OF B k(1) kb]
  show "B_lo / k_hi \<le> cos (arctan t) * dy - sin (arctan t) * dx"
    and "cos (arctan t) * dy - sin (arctan t) * dx \<le> B_hi / k_lo"
    unfolding e .
qed

lemma lat_between:
  fixes q a dz :: real
  assumes q: "0 \<le> q_lo" "q_lo \<le> q" "q \<le> q_hi"
    and h: "0 < h_lo" "h_lo\<^sup>2 \<le> 1 + q_lo\<^sup>2" "1 + q_hi\<^sup>2 \<le> h_hi\<^sup>2" "0 \<le> h_hi"
    and a: "a_lo \<le> a" "a \<le> a_hi" "a_hi \<le> 0"
    and dz: "0 \<le> dz" and nz: "0 \<le> a_lo + q_lo * dz"
  shows "(q_hi * a_lo - dz) / h_lo \<le> sin (arctan q) * a - cos (arctan q) * dz"
    and "sin (arctan q) * a - cos (arctan q) * dz \<le> (q_lo * a_hi - dz) / h_hi"
    and "(a_lo + q_lo * dz) / h_hi \<le> cos (arctan q) * a + sin (arctan q) * dz"
    and "cos (arctan q) * a + sin (arctan q) * dz \<le> (a_hi + q_hi * dz) / h_lo"
proof -
  let ?h = "sqrt (1 + q\<^sup>2)"
  from q have q2: "q_lo\<^sup>2 \<le> q\<^sup>2" "q\<^sup>2 \<le> q_hi\<^sup>2" by (intro power_mono; linarith)+
  from h(2) q2(1) have 1: "h_lo\<^sup>2 \<le> 1 + q\<^sup>2" by linarith
  from h(3) q2(2) have 2: "1 + q\<^sup>2 \<le> h_hi\<^sup>2" by linarith
  from sqrt_between [OF 1 2 h(4)] have hb: "h_lo \<le> ?h" "?h \<le> h_hi" .
  have S: "sin (arctan q) * a - cos (arctan q) * dz = (q * a - dz) / ?h"
    by (simp add: sin_arctan cos_arctan diff_divide_distrib)
  have Z: "cos (arctan q) * a + sin (arctan q) * dz = (a + q * dz) / ?h"
    by (simp add: sin_arctan cos_arctan add_divide_distrib)
  from mult_between_pos_neg [OF q a] have qa: "q_hi * a_lo \<le> q * a" "q * a \<le> q_lo * a_hi" .
  have "q_lo * a_hi \<le> 0" using q(1) a(3) by (rule mult_nonneg_nonpos)
  with dz have n0: "q_lo * a_hi - dz \<le> 0" by linarith
  from qa have nS: "q_hi * a_lo - dz \<le> q * a - dz" "q * a - dz \<le> q_lo * a_hi - dz"
    by linarith+
  from div_between_neg [OF nS n0 h(1) hb]
  show "(q_hi * a_lo - dz) / h_lo \<le> sin (arctan q) * a - cos (arctan q) * dz"
    and "sin (arctan q) * a - cos (arctan q) * dz \<le> (q_lo * a_hi - dz) / h_hi"
    unfolding S .
  have "q_lo * dz \<le> q * dz" "q * dz \<le> q_hi * dz"
    using q dz by (intro mult_right_mono; linarith)+
  with a have nZ: "a_lo + q_lo * dz \<le> a + q * dz" "a + q * dz \<le> a_hi + q_hi * dz"
    by linarith+
  from div_between_pos [OF nz nZ h(1) hb]
  show "(a_lo + q_lo * dz) / h_hi \<le> cos (arctan q) * a + sin (arctan q) * dz"
    and "cos (arctan q) * a + sin (arctan q) * dz \<le> (a_hi + q_hi * dz) / h_lo"
    unfolding Z .
qed

text \<open>
  C1: for the test vector of the header of the script, the origin
  \<open>(822.933, -4787.187, 4120.262)\<close> and the target \<open>(1131.698, -4479.324, 4430.228)\<close>, the
  script prints three numbers that are each within 0.01 of \<open>-398.778\<close>, \<open>356.458\<close> and
  \<open>10.340\<close>.
\<close>

theorem test_vector:
  "\<exists>S E Z. ecef_to_sez (Fin 822.933) (Fin (- 4787.187)) (Fin 4120.262)
               (Fin 1131.698) (Fin (- 4479.324)) (Fin 4430.228) = Inr (Fin S, Fin E, Fin Z)
     \<and> \<bar>S - (- 398.778)\<bar> \<le> 0.01 \<and> \<bar>E - 356.458\<bar> \<le> 0.01 \<and> \<bar>Z - 10.340\<bar> \<le> 0.01"
proof -
  define ox :: real where "ox = 822.933"
  define oy :: real where "oy = - 4787.187"
  define oz :: real where "oz = 4120.262"
  define x :: real where "x = 1131.698"
  define y :: real where "y = - 4479.324"
  define z :: real where "z = 4430.228"
  define t where "t = oy / ox"
  note d = ox_def oy_def oz_def x_def y_def z_def
  from test_vector_solve obtain s q where s:
    "geodetic_solve (Fin ox) (Fin oy) (Fin oz) = Inr (s, Fin (arctan t))"
    "o_lat_rad s = Fin (arctan q)" "0.853937 \<le> q" "q \<le> 0.853961"
    unfolding t_def d by blast
  let ?a = "cos (arctan t) * (x - ox) + sin (arctan t) * (y - oy)"
  let ?S = "sin (arctan q) * ?a - cos (arctan q) * (z - oz)"
  let ?E = "cos (arctan t) * (y - oy) - sin (arctan t) * (x - ox)"
  let ?Z = "cos (arctan q) * ?a + sin (arctan q) * (z - oz)"
  have out: "ecef_to_sez (Fin ox) (Fin oy) (Fin oz) (Fin x) (Fin y) (Fin z)
      = Inr (Fin ?S, Fin ?E, Fin ?Z)"
    by (simp only: ecef_to_sez_def s(1,2) bindE.simps prod.case sez_output_Fin)
  have k: "(0::real) < 5.902551" "(5.902551::real)\<^sup>2 \<le> 1 + t\<^sup>2"
    "1 + t\<^sup>2 \<le> (5.902552::real)\<^sup>2" "(0::real) \<le> 5.902552"
    by (simp_all add: t_def d power2_eq_square)
  have A: "- 1482.1436 \<le> (x - ox) + t * (y - oy)" "(x - ox) + t * (y - oy) \<le> - 1482.1435"
    "(- 1482.1435::real) \<le> 0"
    by (simp_all add: t_def d)
  have B: "(0::real) \<le> 2104.0186" "2104.0186 \<le> (y - oy) - t * (x - ox)"
    "(y - oy) - t * (x - ox) \<le> 2104.0187"
    by (simp_all add: t_def d)
  note lon = lon_between [OF k A B]
  have "(- 251.1023::real) \<le> - 1482.1436 / 5.902551" "(- 1482.1435::real) / 5.902552 \<le> - 251.1021"
    by simp_all
  with lon(1,2) have a: "- 251.1023 \<le> ?a" "?a \<le> - 251.1021" by linarith+
  have "356.458 - 0.01 \<le> (2104.0186::real) / 5.902552" "(2104.0187::real) / 5.902551 \<le> 356.458 + 0.01"
    by simp_all
  with lon(3,4) have "356.458 - 0.01 \<le> ?E" "?E \<le> 356.458 + 0.01" by linarith+
  then have bE: "\<bar>?E - 356.458\<bar> \<le> 0.01" by (rule abs_between)
  have n: "(0::real) \<le> 0.853937" "(0::real) < 1.314993"
    "(1.314993::real)\<^sup>2 \<le> 1 + 0.853937\<^sup>2" "1 + (0.853961::real)\<^sup>2 \<le> 1.31501\<^sup>2"
    "(0::real) \<le> 1.31501" "(- 251.1021::real) \<le> 0"
    by (simp_all add: power2_eq_square)
  have dz: "0 \<le> z - oz" "0 \<le> - 251.1023 + 0.853937 * (z - oz)"
    by (simp_all add: d)
  note lat = lat_between [OF n(1) s(3,4) n(2,3,4,5) a n(6) dz]
  have "- 398.778 - 0.01 \<le> (0.853961 * - 251.1023 - (z - oz)) / 1.314993"
    "(0.853937 * - 251.1021 - (z - oz)) / 1.31501 \<le> - 398.778 + 0.01"
    "10.340 - 0.01 \<le> (- 251.1023 + 0.853937 * (z - oz)) / 1.31501"
    "(- 251.1021 + 0.853961 * (z - oz)) / 1.314993 \<le> 10.340 + 0.01"
    by (simp_all add: d)
  with lat have S: "- 398.778 - 0.01 \<le> ?S" "?S \<le> - 398.778 + 0.01"
    and Z: "10.340 - 0.01 \<le> ?Z" "?Z \<le> 10.340 + 0.01"
    by linarith+
  from S have bS: "\<bar>?S - (- 398.778)\<bar> \<le> 0.01" by (rule abs_between)
  from Z have bZ: "\<bar>?Z - 10.340\<bar> \<le> 0.01" by (rule abs_between)
  from out bS bE bZ have "\<exists>S E Z. ecef_to_sez (Fin ox) (Fin oy) (Fin oz) (Fin x) (Fin y) (Fin z)
        = Inr (Fin S, Fin E, Fin Z)
     \<and> \<bar>S - (- 398.778)\<bar> \<le> 0.01 \<and> \<bar>E - 356.458\<bar> \<le> 0.01 \<and> \<bar>Z - 10.340\<bar> \<le> 0.01"
    by blast
  then show ?thesis unfolding d .
qed

end
